theory Spec2Isabelle
  imports Main "HOL-Library.Word"
begin

section \<open>Session registry (whatsappSessionService.ts)\<close>

text \<open>
  Times are JavaScript \<^verbatim>\<open>Date\<close> values, read as milliseconds since the epoch.
  An optional property of a TypeScript object (\<^verbatim>\<open>undefined\<close> when omitted) and a
  nullable column of the database are both \<open>option\<close> values.
\<close>

type_synonym time = int

text \<open>
  The code trims the label of a session and cuts the first eight characters of a
  tenant id, and builds the session name from both. These operations count UTF-16
  code units, so names, labels and tenant ids are lists of code units; \<open>js\<close> writes
  one from an ASCII literal. Every other string (a status, a token, a pairing code, a
  message) is only copied, compared, concatenated and searched for ASCII words; those
  are 8-bit strings, read as UTF-8.
\<close>

type_synonym jsstring = "nat list"

definition js :: "string \<Rightarrow> jsstring" where
  "js s = map of_char s"

datatype provider = WAHA | EVOLUTION | QUEPASA

text \<open>
  The \<^verbatim>\<open>config\<close> side channel is an arbitrary JSON object in the source; the
  model keeps it as a flat list of string properties and leaves the
  \<^verbatim>\<open>JSON.stringify\<close>/\<^verbatim>\<open>JSON.parse\<close> round trip out.
\<close>

type_synonym config = "(string \<times> string) list"

record me_data =
  me_id :: string
  me_pushName :: string
  me_lid :: "string option"
  me_jid :: "string option"

text \<open>The interface \<^verbatim>\<open>WhatsAppSessionData\<close>: the argument of a registry write.\<close>

record whatsAppSessionData =
  data_name :: jsstring
  data_displayName :: "jsstring option"
  data_status :: string
  data_provider :: provider
  data_config :: "config option"
  data_me :: "me_data option"
  data_qr :: "string option"
  data_qrExpiresAt :: "time option"
  data_assignedWorker :: "string option"
  data_tenantId :: "jsstring option"
  data_quepasaToken :: "string option"
  data_interactiveCampaignEnabled :: "bool option"
  data_webhookSecret :: "string option"

text \<open>A row of the table \<^verbatim>\<open>whatsAppSession\<close>; \<^verbatim>\<open>name\<close> is its unique key.\<close>

record whatsAppSession =
  name :: jsstring
  displayName :: "jsstring option"
  status :: string
  provider :: provider
  config :: "config option"
  meId :: "string option"
  mePushName :: "string option"
  meLid :: "string option"
  meJid :: "string option"
  qr :: "string option"
  qrExpiresAt :: "time option"
  assignedWorker :: "string option"
  tenantId :: "jsstring option"
  quepasaToken :: "string option"
  interactiveCampaignEnabled :: bool
  webhookSecret :: "string option"
  criadoEm :: time
  atualizadoEm :: time

text \<open>
  The table is the list of its rows; the unique key means that no two rows share a
  \<^verbatim>\<open>name\<close> (the invariant \<open>uniqueNames\<close> below, kept by every write).
\<close>

type_synonym registry = "whatsAppSession list"

definition uniqueNames :: "registry \<Rightarrow> bool" where
  "uniqueNames db = distinct (map name db)"

text \<open>\<^verbatim>\<open>prisma.whatsAppSession.findUnique({ where: { name } })\<close>.\<close>

definition findUnique :: "jsstring \<Rightarrow> registry \<Rightarrow> whatsAppSession option" where
  "findUnique n db = find (\<lambda>r. name r = n) db"

text \<open>
  JavaScript's \<^verbatim>\<open>x || null\<close> on an optional string: the empty string is falsy,
  so it is dropped like \<^verbatim>\<open>undefined\<close>.
\<close>

definition truthy :: "'a list option \<Rightarrow> bool" where
  "truthy x = (case x of None \<Rightarrow> False | Some s \<Rightarrow> s \<noteq> [])"

definition or_null :: "'a list option \<Rightarrow> 'a list option" where
  "or_null x = (if truthy x then x else None)"

definition or_else :: "'a list option \<Rightarrow> 'a list \<Rightarrow> 'a list" where
  "or_else x d = (case x of None \<Rightarrow> d | Some s \<Rightarrow> if s = [] then d else s)"

text \<open>\<^verbatim>\<open>baseData\<close> of \<^verbatim>\<open>createOrUpdateSession\<close>, written over the row \<open>r\<close>.\<close>

definition baseData :: "whatsAppSessionData \<Rightarrow> whatsAppSession \<Rightarrow> whatsAppSession" where
  "baseData d r = r\<lparr>
     name := data_name d,
     displayName := Some (or_else (data_displayName d) (data_name d)),
     status := data_status d,
     provider := data_provider d,
     config := data_config d,
     meId := (case data_me d of None \<Rightarrow> None | Some m \<Rightarrow> or_null (Some (me_id m))),
     mePushName := (case data_me d of None \<Rightarrow> None | Some m \<Rightarrow> or_null (Some (me_pushName m))),
     meLid := (case data_me d of None \<Rightarrow> None | Some m \<Rightarrow> or_null (me_lid m)),
     meJid := (case data_me d of None \<Rightarrow> None | Some m \<Rightarrow> or_null (me_jid m)),
     qr := or_null (data_qr d),
     qrExpiresAt := data_qrExpiresAt d,
     assignedWorker := or_null (data_assignedWorker d),
     tenantId := or_null (data_tenantId d),
     quepasaToken := or_null (data_quepasaToken d)\<rparr>"

text \<open>
  \<^verbatim>\<open>updateData\<close>: the base fields and the update time; the two webhook fields
  only when the caller passed them (\<^verbatim>\<open>!== undefined\<close>).
\<close>

definition updateData :: "time \<Rightarrow> whatsAppSessionData \<Rightarrow> whatsAppSession \<Rightarrow> whatsAppSession" where
  "updateData now d old =
     (let r1 = (baseData d old)\<lparr>atualizadoEm := now\<rparr>;
          r2 = (case data_interactiveCampaignEnabled d of
                  None \<Rightarrow> r1
                | Some b \<Rightarrow> r1\<lparr>interactiveCampaignEnabled := b\<rparr>)
      in (case data_webhookSecret d of
            None \<Rightarrow> r2
          | Some s \<Rightarrow> r2\<lparr>webhookSecret := Some s\<rparr>))"

text \<open>\<^verbatim>\<open>createData\<close>: the base fields and the defaults of a new row.\<close>

definition emptySession :: whatsAppSession where
  "emptySession = \<lparr>name = [], displayName = None, status = [], provider = WAHA,
     config = None, meId = None, mePushName = None, meLid = None, meJid = None,
     qr = None, qrExpiresAt = None, assignedWorker = None, tenantId = None,
     quepasaToken = None, interactiveCampaignEnabled = False, webhookSecret = None,
     criadoEm = 0, atualizadoEm = 0\<rparr>"

definition createData :: "time \<Rightarrow> whatsAppSessionData \<Rightarrow> whatsAppSession" where
  "createData now d = (baseData d emptySession)\<lparr>
     interactiveCampaignEnabled :=
       (case data_interactiveCampaignEnabled d of None \<Rightarrow> False | Some b \<Rightarrow> b),
     webhookSecret := or_null (data_webhookSecret d),
     criadoEm := now,
     atualizadoEm := now\<rparr>"

text \<open>
  \<^verbatim>\<open>createOrUpdateSession\<close>: the upsert on the key \<^verbatim>\<open>name\<close>. The row returned
  by the source is the one found under \<open>data_name d\<close> afterwards.
\<close>

definition createOrUpdateSession :: "time \<Rightarrow> whatsAppSessionData \<Rightarrow> registry \<Rightarrow> registry" where
  "createOrUpdateSession now d db =
     (case findUnique (data_name d) db of
        None \<Rightarrow> db @ [createData now d]
      | Some _ \<Rightarrow> map (\<lambda>r. if name r = data_name d then updateData now d r else r) db)"

text \<open>A call that passes only the required properties; callers extend it.\<close>

definition sessionData :: "jsstring \<Rightarrow> string \<Rightarrow> provider \<Rightarrow> whatsAppSessionData" where
  "sessionData n s p = \<lparr>data_name = n, data_displayName = None, data_status = s,
     data_provider = p, data_config = None, data_me = None, data_qr = None,
     data_qrExpiresAt = None, data_assignedWorker = None, data_tenantId = None,
     data_quepasaToken = None, data_interactiveCampaignEnabled = None,
     data_webhookSecret = None\<rparr>"

section \<open>String operations of the JavaScript runtime\<close>

fun startsWith :: "string \<Rightarrow> string \<Rightarrow> bool" where
  "startsWith s [] = True"
| "startsWith [] (p # ps) = False"
| "startsWith (c # cs) (p # ps) = (c = p \<and> startsWith cs ps)"

text \<open>\<^verbatim>\<open>s.includes(sub)\<close>: \<open>sub\<close> occurs somewhere in \<open>s\<close>.\<close>

fun str_includes :: "string \<Rightarrow> string \<Rightarrow> bool" where
  "str_includes [] sub = (sub = [])"
| "str_includes (c # cs) sub = (startsWith (c # cs) sub \<or> str_includes cs sub)"

text \<open>
  \<^verbatim>\<open>toLowerCase\<close> is applied to the status words of the gateways only, and its result
  is only looked up among ASCII words or searched for them. The model lowers the ASCII
  letters and leaves every other character as it is. The runtime also lowers letters
  outside ASCII; of those only U+212A gives an ASCII letter (\<^verbatim>\<open>k\<close>) and U+0130 gives
  \<^verbatim>\<open>i\<close> followed by U+0307. A lower-cased string has no capital letter, so the words
  it can be compared with are \<^verbatim>\<open>open\<close>, \<^verbatim>\<open>connecting\<close>, \<^verbatim>\<open>close\<close>, \<^verbatim>\<open>closed\<close>,
  \<^verbatim>\<open>constructor\<close> and \<^verbatim>\<open>__proto__\<close>, and the words searched in it are \<^verbatim>\<open>ready\<close>,
  \<^verbatim>\<open>starting\<close>, \<^verbatim>\<open>qrcode\<close>, \<^verbatim>\<open>disconnected\<close> and \<^verbatim>\<open>stopped\<close>. None of them contains
  \<^verbatim>\<open>k\<close> or ends in \<^verbatim>\<open>i\<close>, so the lookups and searches of the model answer as those of
  the code.
\<close>

definition lowerChar :: "char \<Rightarrow> char" where
  "lowerChar c =
     (case map_of (zip ''ABCDEFGHIJKLMNOPQRSTUVWXYZ'' ''abcdefghijklmnopqrstuvwxyz'') c of
        None \<Rightarrow> c
      | Some l \<Rightarrow> l)"

definition toLowerCase :: "string \<Rightarrow> string" where
  "toLowerCase s = map lowerChar s"

text \<open>
  \<^verbatim>\<open>trim\<close> removes white space and line terminators at both ends: the code units
  U+0009 to U+000D, U+0020, U+00A0, U+1680, U+2000 to U+200A, U+2028, U+2029, U+202F,
  U+205F, U+3000 and U+FEFF.
\<close>

definition isSpace :: "nat \<Rightarrow> bool" where
  "isSpace c =
     ((9 \<le> c \<and> c \<le> 13) \<or> c = 32 \<or> c = 160 \<or> c = 5760 \<or> (8192 \<le> c \<and> c \<le> 8202) \<or>
      c = 8232 \<or> c = 8233 \<or> c = 8239 \<or> c = 8287 \<or> c = 12288 \<or> c = 65279)"

definition trim :: "jsstring \<Rightarrow> jsstring" where
  "trim s = rev (dropWhile isSpace (rev (dropWhile isSpace s)))"

text \<open>
  \<^verbatim>\<open>s.replace(pat, '')\<close> with a string pattern: the first occurrence of \<open>pat\<close> is
  removed, wherever it stands. The pattern of the source is not empty.
\<close>

fun removeFirst :: "string \<Rightarrow> string \<Rightarrow> string" where
  "removeFirst pat [] = []"
| "removeFirst pat (c # cs) =
     (if startsWith (c # cs) pat then drop (length pat) (c # cs)
      else c # removeFirst pat cs)"

section \<open>Provider status vocabularies (GET /sessions)\<close>

text \<open>
  Quepasa: the \<^verbatim>\<open>/health\<close> answer \<^verbatim>\<open>{ success, status }\<close>. \<open>success\<close> is
  \<^verbatim>\<open>statusData.success === true\<close> and \<open>st\<close> is \<^verbatim>\<open>String(statusData.status)\<close>.
\<close>

definition quepasaMappedStatus :: "bool \<Rightarrow> string \<Rightarrow> string" where
  "quepasaMappedStatus success st =
     (let statusLower = toLowerCase st in
      if success \<and> str_includes statusLower ''ready'' then ''WORKING''
      else if str_includes statusLower ''starting'' \<or> str_includes statusLower ''qrcode''
        then ''SCAN_QR_CODE''
      else if str_includes statusLower ''disconnected'' \<or> str_includes statusLower ''stopped''
        then ''STOPPED''
      else ''FAILED'')"

text \<open>
  Evolution with per-session credentials:
  \<^verbatim>\<open>stateMap[rawState?.toLowerCase()] || 'STOPPED'\<close>. \<^verbatim>\<open>stateMap\<close> is an object
  literal, so reading a property of it also finds what every object inherits from
  \<^verbatim>\<open>Object.prototype\<close>: functions, and the prototype itself for \<^verbatim>\<open>__proto__\<close>. Such
  a value is truthy and is not a string; \<open>Obj\<close> stands for it.
\<close>

datatype jsvalue = Str string | Obj

definition stateMap :: "string \<Rightarrow> jsvalue option" where
  "stateMap k =
     (if k = ''open'' then Some (Str ''WORKING'')
      else if k = ''connecting'' then Some (Str ''SCAN_QR_CODE'')
      else if k = ''close'' then Some (Str ''STOPPED'')
      else if k = ''closed'' then Some (Str ''STOPPED'')
      else if k \<in> set [''constructor'', ''__proto__'', ''hasOwnProperty'', ''isPrototypeOf'',
                        ''propertyIsEnumerable'', ''toString'', ''toLocaleString'', ''valueOf'',
                        ''__defineGetter__'', ''__defineSetter__'', ''__lookupGetter__'',
                        ''__lookupSetter__'']
        then Some Obj
      else None)"

definition evolutionMappedStatus :: "string \<Rightarrow> jsvalue" where
  "evolutionMappedStatus rawState =
     (case stateMap (toLowerCase rawState) of
        None \<Rightarrow> Str ''STOPPED''
      | Some v \<Rightarrow> v)"



section \<open>Webhook verifier (connectionService.validateHmacSignature)\<close>

type_synonym byte = "8 word"

text \<open>\<^verbatim>\<open>digest('hex')\<close>: two lower-case hexadecimal digits for each byte.\<close>

definition hexDigit :: "nat \<Rightarrow> char" where
  "hexDigit n = ''0123456789abcdef'' ! n"

definition hexEncode :: "byte list \<Rightarrow> string" where
  "hexEncode bs = concat (map (\<lambda>b. [hexDigit (unat b div 16), hexDigit (unat b mod 16)]) bs)"

text \<open>
  \<^verbatim>\<open>Buffer.from(s, 'hex')\<close>: pairs of hexadecimal digits of either case; decoding
  stops at the first pair that is not one, and at a single last character.
\<close>

definition hexVal :: "char \<Rightarrow> nat option" where
  "hexVal c =
     (let k = (of_char c :: nat) in
      if 48 \<le> k \<and> k \<le> 57 then Some (k - 48)
      else if 97 \<le> k \<and> k \<le> 102 then Some (k - 87)
      else if 65 \<le> k \<and> k \<le> 70 then Some (k - 55)
      else None)"

fun bufferFromHex :: "string \<Rightarrow> byte list" where
  "bufferFromHex (a # b # rest) =
     (case hexVal a of
        None \<Rightarrow> []
      | Some h \<Rightarrow>
          (case hexVal b of
             None \<Rightarrow> []
           | Some l \<Rightarrow> of_nat (16 * h + l) # bufferFromHex rest))"
| "bufferFromHex [a] = []"
| "bufferFromHex [] = []"

datatype error =
    SessionNotFound
  | RangeError
  | TypeError
  | ConfigMissing
  | HttpError nat
  | FetchFailed
  | UniqueConstraint

text \<open>\<^verbatim>\<open>crypto.timingSafeEqual\<close> throws on buffers of different lengths.\<close>

definition timingSafeEqual :: "byte list \<Rightarrow> byte list \<Rightarrow> error + bool" where
  "timingSafeEqual a b = (if length a \<noteq> length b then Inl RangeError else Inr (a = b))"

text \<open>
  \<open>hmac secret body\<close> stands for the bytes of
  \<^verbatim>\<open>crypto.createHmac('sha256', secret).update(body)\<close>, a primitive of the runtime.
  A missing header reaches the function as \<^verbatim>\<open>undefined\<close> (\<open>None\<close>), on which
  \<^verbatim>\<open>signature.replace\<close> throws; every exception is caught and answered \<^verbatim>\<open>false\<close>.
\<close>

definition validateHmacSignature ::
  "(string \<Rightarrow> string \<Rightarrow> byte list) \<Rightarrow> string option \<Rightarrow> string \<Rightarrow> string \<Rightarrow> bool" where
  "validateHmacSignature hmac signature body secret =
     (let expectedSignature = hexEncode (hmac secret body) in
      case signature of
        None \<Rightarrow> False
      | Some sg \<Rightarrow>
          (let receivedSignature = removeFirst ''sha256='' sg in
           case timingSafeEqual (bufferFromHex expectedSignature)
                  (bufferFromHex receivedSignature) of
             Inl _ \<Rightarrow> False
           | Inr eq \<Rightarrow> eq))"

text \<open>
  The acceptance condition in the words of the specification: the signature, after
  an optional prefix \<^verbatim>\<open>sha256=\<close> is stripped, is the hexadecimal digest itself.
\<close>

definition stripSha256Prefix :: "string \<Rightarrow> string" where
  "stripSha256Prefix sg = (if startsWith sg ''sha256='' then drop 7 sg else sg)"

definition specAccepts ::
  "(string \<Rightarrow> string \<Rightarrow> byte list) \<Rightarrow> string \<Rightarrow> string \<Rightarrow> string \<Rightarrow> bool" where
  "specAccepts hmac sg body secret = (stripSha256Prefix sg = hexEncode (hmac secret body))"

section \<open>Reading the registry\<close>

text \<open>
  \<^verbatim>\<open>if (tenantId) where.tenantId = tenantId\<close>: the tenant filter applies only to a
  non-empty tenant id.
\<close>

definition tenantFilter :: "jsstring option \<Rightarrow> whatsAppSession \<Rightarrow> bool" where
  "tenantFilter t r = (if truthy t then tenantId r = t else True)"


definition getSession :: "jsstring \<Rightarrow> jsstring option \<Rightarrow> registry \<Rightarrow> error + whatsAppSession" where
  "getSession n t db =
     (case find (\<lambda>r. name r = n \<and> tenantFilter t r) db of
        None \<Rightarrow> Inl SessionNotFound
      | Some r \<Rightarrow> Inr r)"

definition viewDisplayName :: "whatsAppSession \<Rightarrow> jsstring" where
  "viewDisplayName r = or_else (displayName r) (name r)"

record sessionView =
  v_name :: jsstring
  v_displayName :: jsstring
  v_status :: string
  v_provider :: provider
  v_config :: config
  v_me :: "me_data option"
  v_qr :: "string option"
  v_qrExpiresAt :: "time option"
  v_assignedWorker :: "string option"
  v_tenantId :: "jsstring option"
  v_quepasaToken :: "string option"


section \<open>Requests and replies\<close>

text \<open>
  What a handler reads of an authenticated request: \<^verbatim>\<open>req.user?.role\<close>,
  \<^verbatim>\<open>req.tenantId\<close> and the body of \<^verbatim>\<open>POST /sessions\<close>.
\<close>

record request =
  user_role :: "string option"
  req_tenantId :: "jsstring option"
  body_name :: "jsstring option"
  body_provider :: "string option"
  body_interactiveCampaignEnabled :: "bool option"
  body_tenantId :: "jsstring option"

datatype resource = Users | Contacts | Campaigns | Connections

datatype action = Create | Update

text \<open>The bodies of the replies, one constructor for each message of the source.\<close>

datatype payload =
    TenantNotIdentified
  | QuotaNotConfigured
  | QuotaReached resource int int
  | NameRequired
  | InvalidProvider
  | TenantIdRequired
  | NameConflict
  | SessionCreated jsstring
  | SessionJson sessionView
  | SessionList "sessionView list"
  | InternalError
  | SessionMissing
  | SavedQr string time string
  | SavedQrUnavailable string time "string option"
  | FreshQr string time provider
  | QrProviderError provider
  | WahaUnreachable
  | AlreadyConnected
  | QrNotAvailable

datatype reply = Reply nat payload

text \<open>The calls that leave the system, in the order they are made.\<close>

datatype remote_call =
    WahaPostSession jsstring
  | WahaGetSession jsstring
  | WahaQrImage jsstring
  | EvolutionCreateInstance jsstring
  | EvolutionGetQRCode jsstring
  | QuepasaScan string

section \<open>Computations that write the registry and may throw\<close>

text \<open>
  An asynchronous function of the source, run to its end: it returns a value or
  throws, and either way leaves the registry with the writes made so far. \<open>await\<close>
  lifts the outcome of a call that does not touch the registry, \<open>andThen\<close> is the
  sequence of two statements (an exception skips the second), \<open>tryCatch\<close> is
  \<^verbatim>\<open>try { ... } catch (e) { ... }\<close> and \<open>forEach\<close> is \<^verbatim>\<open>for (const x of xs) { ... }\<close>,
  which an exception of its body leaves.
\<close>

type_synonym 'a comp = "registry \<Rightarrow> (error + 'a) \<times> registry"

definition returnOk :: "'a \<Rightarrow> 'a comp" where
  "returnOk v db = (Inr v, db)"






text \<open>\<^verbatim>\<open>await WhatsAppSessionService.createOrUpdateSession(data)\<close> at the time \<open>now\<close>.\<close>

definition writeSession :: "time \<Rightarrow> whatsAppSessionData \<Rightarrow> unit comp" where
  "writeSession now d db = (Inr (), createOrUpdateSession now d db)"

section \<open>WAHA synchronisation (WahaSyncService)\<close>

text \<open>The session object that the WAHA gateway answers with.\<close>

record wahaSession =
  w_name :: jsstring
  w_status :: "string option"
  w_config :: "config option"
  w_me :: "me_data option"
  w_assignedWorker :: "string option"

text \<open>
  WAHA statuses are not mapped: \<^verbatim>\<open>status: wahaSession.status || 'STOPPED'\<close> stores
  the gateway's word as it came.
\<close>

definition wahaStatus :: "wahaSession \<Rightarrow> string" where
  "wahaStatus w = or_else (w_status w) ''STOPPED''"




section \<open>Quepasa synchronisation (GET /sessions)\<close>













section \<open>Evolution synchronisation (GET /sessions)\<close>


record evolutionInfo =
  ownerJid :: "string option"
  owner :: "string option"
  profileName :: "string option"





text \<open>\<^verbatim>\<open>'Usu\<close>, the two bytes of a-acute in UTF-8, \<^verbatim>\<open>rio WhatsApp'\<close>.\<close>

definition defaultPushName :: string where
  "defaultPushName = ''Usu'' @ [CHR 0xC3, CHR 0xA1] @ ''rio WhatsApp''"

definition evolutionMe :: "string \<Rightarrow> evolutionInfo option \<Rightarrow> me_data option" where
  "evolutionMe mappedStatus info =
     (case info of
        None \<Rightarrow> None
      | Some i \<Rightarrow>
          if mappedStatus = ''WORKING'' \<and> (truthy (ownerJid i) \<or> truthy (owner i))
          then (let jid = or_else (ownerJid i) (or_else (owner i) []) in
                Some \<lparr>me_id = jid, me_pushName = or_else (profileName i) defaultPushName,
                       me_lid = None, me_jid = Some jid\<rparr>)
          else None)"

definition evolutionData ::
  "whatsAppSession \<Rightarrow> string \<Rightarrow> me_data option \<Rightarrow> whatsAppSessionData" where
  "evolutionData s mappedStatus me = \<lparr>
     data_name = name s,
     data_displayName = Some (viewDisplayName s),
     data_status = mappedStatus,
     data_provider = EVOLUTION,
     data_config = None,
     data_me = me,
     data_qr = or_null (qr s),
     data_qrExpiresAt = qrExpiresAt s,
     data_assignedWorker = None,
     data_tenantId = or_null (tenantId s),
     data_quepasaToken = None,
     data_interactiveCampaignEnabled = None,
     data_webhookSecret = None\<rparr>"

text \<open>
  The write at the end of a turn happens only when the mapped status is one of the
  four words; a value that is not a string is none of them.
\<close>

definition writeEvolutionStatus ::
  "time \<Rightarrow> whatsAppSession \<Rightarrow> jsvalue \<Rightarrow> evolutionInfo option \<Rightarrow> unit comp" where
  "writeEvolutionStatus now s mappedStatus info =
     (case mappedStatus of
        Str st \<Rightarrow>
          if st \<in> set [''WORKING'', ''SCAN_QR_CODE'', ''STOPPED'', ''FAILED'']
          then writeSession now (evolutionData s st (evolutionMe st info))
          else returnOk ()
      | Obj \<Rightarrow> returnOk ())"



section \<open>The batch synchronisation (GET /sessions)\<close>


section \<open>Reading one session (GET /sessions/:sessionName)\<close>


section \<open>Quota gate (quotaMiddleware.ts)\<close>

text \<open>
  A row of \<^verbatim>\<open>tenantQuota\<close> with the counts of its tenant. The users, contacts and
  campaigns tables are not modelled, so their counts are columns here; the count of
  WhatsApp sessions is taken from the registry.
\<close>

record tenantQuota =
  quota_tenantId :: jsstring
  maxUsers :: int
  maxContacts :: int
  maxCampaigns :: int
  maxConnections :: int
  count_users :: int
  count_contacts :: int
  count_campaigns :: int

record database =
  sessions :: registry
  tenantQuotas :: "tenantQuota list"

definition count_whatsappSessions :: "jsstring \<Rightarrow> registry \<Rightarrow> int" where
  "count_whatsappSessions t db = int (length (filter (\<lambda>r. tenantId r = Some t) db))"

datatype gate = Next | Respond reply

definition quotaMiddleware :: "resource \<Rightarrow> action \<Rightarrow> request \<Rightarrow> database \<Rightarrow> gate" where
  "quotaMiddleware res act req db =
     (if user_role req = Some ''SUPERADMIN'' then Next
      else case req_tenantId req of
        None \<Rightarrow> Respond (Reply 403 TenantNotIdentified)
      | Some t \<Rightarrow>
          if t = [] then Respond (Reply 403 TenantNotIdentified)
          else case find (\<lambda>q. quota_tenantId q = t) (tenantQuotas db) of
            None \<Rightarrow> Respond (Reply 403 QuotaNotConfigured)
          | Some q \<Rightarrow>
              (let (currentCount, maxAllowed) =
                 (case res of
                    Users \<Rightarrow> (count_users q, maxUsers q)
                  | Contacts \<Rightarrow> (count_contacts q, maxContacts q)
                  | Campaigns \<Rightarrow> (count_campaigns q, maxCampaigns q)
                  | Connections \<Rightarrow> (count_whatsappSessions t (sessions db), maxConnections q))
               in if act = Create \<and> currentCount \<ge> maxAllowed
                  then Respond (Reply 403 (QuotaReached res currentCount maxAllowed))
                  else Next))"

definition checkConnectionQuota :: "request \<Rightarrow> database \<Rightarrow> gate" where
  "checkConnectionQuota = quotaMiddleware Connections Create"

section \<open>Creating a session (POST /sessions)\<close>

text \<open>
  The gateways as the creation path calls them: \<^verbatim>\<open>wahaRequest\<close> with POST and GET,
  and \<^verbatim>\<open>evolutionApiService.createInstance\<close>, which answers with the optional
  \<^verbatim>\<open>qrcode.base64\<close> of its result. A call that throws is \<open>Inl\<close> of the message of
  its exception, which \<^verbatim>\<open>WahaSyncService.createSession\<close> inspects.
\<close>

record creationGateway =
  wahaPost :: "jsstring \<Rightarrow> string + unit"
  wahaGet :: "jsstring \<Rightarrow> string + wahaSession"
  createInstance :: "jsstring \<Rightarrow> string option \<Rightarrow> string + string option"

text \<open>\<^verbatim>\<open>prisma.whatsAppSession.create\<close>: refused by the unique key when the name exists.\<close>

definition prismaCreate :: "whatsAppSession \<Rightarrow> registry \<Rightarrow> error + registry" where
  "prismaCreate r db =
     (if findUnique (name r) db = None then Inr (db @ [r]) else Inl UniqueConstraint)"

definition parseProvider :: "string \<Rightarrow> provider option" where
  "parseProvider p =
     (if p = ''WAHA'' then Some WAHA
      else if p = ''EVOLUTION'' then Some EVOLUTION
      else if p = ''QUEPASA'' then Some QUEPASA
      else None)"

text \<open>
  The tenant of the new session: a SUPERADMIN may name one in the body. The name used
  with the gateways is the trimmed label, an underscore and the first eight characters
  of the tenant id.
\<close>

definition effectiveTenant :: "request \<Rightarrow> jsstring option" where
  "effectiveTenant req =
     (if user_role req = Some ''SUPERADMIN''
      then (if truthy (body_tenantId req) then body_tenantId req else req_tenantId req)
      else req_tenantId req)"

definition realNameOf :: "jsstring \<Rightarrow> jsstring \<Rightarrow> jsstring" where
  "realNameOf label tenant = trim label @ js ''_'' @ take 8 tenant"

text \<open>
  The webhook address carries the database id of the new row, which the model does
  not have; \<^verbatim>\<open>:id\<close> stands in its place.
\<close>

definition webhookUrlFor :: "bool \<Rightarrow> string option \<Rightarrow> string option" where
  "webhookUrlFor interactive secret =
     (if interactive \<and> truthy secret
      then Some (''/api/webhooks/incoming/:id/'' @ or_else secret [])
      else None)"

definition newRow ::
  "time \<Rightarrow> jsstring \<Rightarrow> jsstring \<Rightarrow> string \<Rightarrow> provider \<Rightarrow> jsstring \<Rightarrow> string option \<Rightarrow> bool \<Rightarrow>
     string option \<Rightarrow> whatsAppSession" where
  "newRow now realName label st prov tenant token interactive secret =
     emptySession\<lparr>name := realName, displayName := Some label, status := st,
       provider := prov, tenantId := Some tenant, quepasaToken := token,
       interactiveCampaignEnabled := interactive, webhookSecret := secret,
       criadoEm := now, atualizadoEm := now\<rparr>"

definition creationData ::
  "jsstring \<Rightarrow> jsstring \<Rightarrow> provider \<Rightarrow> jsstring \<Rightarrow> string option \<Rightarrow> time option \<Rightarrow> bool \<Rightarrow>
     string option \<Rightarrow> whatsAppSessionData" where
  "creationData realName label prov tenant qrCode expires interactive secret =
     (sessionData realName ''SCAN_QR_CODE'' prov)\<lparr>
        data_displayName := Some label,
        data_tenantId := Some tenant,
        data_qr := qrCode,
        data_qrExpiresAt := expires,
        data_interactiveCampaignEnabled := Some interactive,
        data_webhookSecret := secret\<rparr>"

text \<open>
  \<^verbatim>\<open>WahaSyncService.createSession\<close>: the POST, then a registry write. When the POST
  throws with a message that contains \<^verbatim>\<open>422\<close>, the remote session is read and
  written instead; when that read throws, a new exception is thrown, whose message no
  caller looks at and which is shortened here.
\<close>

definition wahaConfig :: "string option \<Rightarrow> config" where
  "wahaConfig webhookUrl = (case webhookUrl of None \<Rightarrow> [] | Some u \<Rightarrow> [(''webhooks'', u)])"

definition wahaCreateSession ::
  "time \<Rightarrow> creationGateway \<Rightarrow> jsstring \<Rightarrow> string option \<Rightarrow> registry \<Rightarrow>
     (string + unit) \<times> registry \<times> remote_call list" where
  "wahaCreateSession now gw n webhookUrl db =
     (case wahaPost gw n of
        Inr _ \<Rightarrow>
          (Inr (),
           createOrUpdateSession now
             ((sessionData n ''STOPPED'' WAHA)\<lparr>data_config := Some (wahaConfig webhookUrl)\<rparr>) db,
           [WahaPostSession n])
      | Inl message \<Rightarrow>
          if str_includes message ''422'' then
            (case wahaGet gw n of
               Inr existing \<Rightarrow>
                 (Inr (),
                  createOrUpdateSession now
                    ((sessionData n (wahaStatus existing) WAHA)\<lparr>data_config :=
                       Some (case w_config existing of
                               None \<Rightarrow> wahaConfig webhookUrl
                             | Some c \<Rightarrow> c)\<rparr>) db,
                  [WahaPostSession n, WahaGetSession n])
             | Inl _ \<Rightarrow> (Inl ''exists, details unavailable'', db, [WahaPostSession n, WahaGetSession n]))
          else (Inl message, db, [WahaPostSession n]))"

text \<open>
  The part of the handler after the duplicate check, for each provider. \<open>newSecret\<close>
  and \<open>newToken\<close> are the values of \<^verbatim>\<open>generateWebhookSecret()\<close> and
  \<^verbatim>\<open>generateQuepasaToken()\<close>. Every exception ends in the reply 500 of the outer
  \<^verbatim>\<open>catch\<close>, with the writes made so far kept.
\<close>

definition createForProvider ::
  "time \<Rightarrow> creationGateway \<Rightarrow> string \<Rightarrow> string \<Rightarrow> provider \<Rightarrow> jsstring \<Rightarrow> jsstring \<Rightarrow>
     jsstring \<Rightarrow> bool \<Rightarrow> registry \<Rightarrow> reply \<times> registry \<times> remote_call list" where
  "createForProvider now gw newSecret newToken prov realName label tenant interactive db =
     (let secret = (if interactive then Some newSecret else None);
          webhookUrl = webhookUrlFor interactive secret
      in case prov of
        EVOLUTION \<Rightarrow>
          (case prismaCreate
                  (newRow now realName label ''SCAN_QR_CODE'' EVOLUTION tenant None interactive secret) db of
             Inl _ \<Rightarrow> (Reply 500 InternalError, db, [])
           | Inr db1 \<Rightarrow>
               (case createInstance gw realName webhookUrl of
                  Inl _ \<Rightarrow> (Reply 500 InternalError, db1, [EvolutionCreateInstance realName])
                | Inr base64 \<Rightarrow>
                    (let qrCode =
                           (if truthy base64
                            then (if startsWith (or_else base64 []) ''data:image/''
                                  then base64
                                  else Some (''data:image/png;base64,'' @ or_else base64 []))
                            else None);
                         expires = (if truthy base64 then Some (now + 300000) else None)
                     in (Reply 200 (SessionCreated realName),
                         createOrUpdateSession now
                           (creationData realName label EVOLUTION tenant qrCode expires
                              interactive secret) db1,
                         [EvolutionCreateInstance realName]))))
      | QUEPASA \<Rightarrow>
          (case prismaCreate
                  (newRow now realName label ''STOPPED'' QUEPASA tenant (Some newToken)
                     interactive secret) db of
             Inl _ \<Rightarrow> (Reply 500 InternalError, db, [])
           | Inr db1 \<Rightarrow> (Reply 200 (SessionCreated realName), db1, []))
      | WAHA \<Rightarrow>
          (case prismaCreate
                  (newRow now realName label ''SCAN_QR_CODE'' WAHA tenant None interactive secret) db of
             Inl _ \<Rightarrow> (Reply 500 InternalError, db, [])
           | Inr db1 \<Rightarrow>
               (case wahaCreateSession now gw realName webhookUrl db1 of
                  (Inl _, db2, calls) \<Rightarrow> (Reply 500 InternalError, db2, calls)
                | (Inr _, db2, calls) \<Rightarrow>
                    (Reply 200 (SessionCreated realName),
                     createOrUpdateSession now
                       (creationData realName label WAHA tenant None None interactive secret) db2,
                     calls))))"

text \<open>The handler of \<^verbatim>\<open>POST /sessions\<close>, entered after the quota gate said \<^verbatim>\<open>next()\<close>.\<close>

definition createSessionHandler ::
  "time \<Rightarrow> creationGateway \<Rightarrow> string \<Rightarrow> string \<Rightarrow> request \<Rightarrow> registry \<Rightarrow>
     reply \<times> registry \<times> remote_call list" where
  "createSessionHandler now gw newSecret newToken req db =
     (let providerName = (case body_provider req of None \<Rightarrow> ''WAHA'' | Some p \<Rightarrow> p);
          interactive = (case body_interactiveCampaignEnabled req of None \<Rightarrow> False | Some b \<Rightarrow> b)
      in if \<not> truthy (body_name req) then (Reply 400 NameRequired, db, [])
         else case parseProvider providerName of
           None \<Rightarrow> (Reply 400 InvalidProvider, db, [])
         | Some prov \<Rightarrow>
             if \<not> truthy (effectiveTenant req) then (Reply 400 TenantIdRequired, db, [])
             else
               (let tenant = or_else (effectiveTenant req) [];
                    label = trim (or_else (body_name req) []);
                    realName = realNameOf (or_else (body_name req) []) tenant
                in if findUnique realName db \<noteq> None then (Reply 409 NameConflict, db, [])
                   else createForProvider now gw newSecret newToken prov realName label tenant
                          interactive db))"

text \<open>
  The route: \<^verbatim>\<open>router.post('/sessions', authMiddleware, checkConnectionQuota, handler)\<close>.
  The handler runs only when the gate calls \<^verbatim>\<open>next()\<close>.
\<close>

definition postSessions ::
  "time \<Rightarrow> creationGateway \<Rightarrow> string \<Rightarrow> string \<Rightarrow> request \<Rightarrow> database \<Rightarrow>
     reply \<times> database \<times> remote_call list" where
  "postSessions now gw newSecret newToken req db =
     (case checkConnectionQuota req db of
        Respond r \<Rightarrow> (r, db, [])
      | Next \<Rightarrow>
          (case createSessionHandler now gw newSecret newToken req (sessions db) of
             (r, reg, calls) \<Rightarrow> (r, db\<lparr>sessions := reg\<rparr>, calls)))"

section \<open>Fetching the pairing code (GET /sessions/:sessionName/auth/qr)\<close>

text \<open>
  The gateways and settings as this route reads them: the stored Quepasa
  configuration, \<^verbatim>\<open>evolutionApiService.getQRCode\<close>, the Quepasa \<^verbatim>\<open>/scan\<close> request
  by token, the WAHA session status and the WAHA image request. An image arrives as
  its base64 text.
\<close>

record qrGateway =
  quepasaUrl :: "string option"
  quepasaLogin :: "string option"
  getQRCode :: "jsstring \<Rightarrow> error + string"
  quepasaScan :: "string \<Rightarrow> error + string"
  wahaSessionStatus :: "jsstring \<Rightarrow> error + wahaSession"
  wahaQrImage :: "jsstring \<Rightarrow> error + string"

text \<open>
  \<^verbatim>\<open>savedSession.qr && savedSession.qrExpiresAt && savedSession.qrExpiresAt > new Date()\<close>:
  a stored code counts only while its expiry lies strictly after the time of the read.
\<close>

definition savedQrValid :: "time \<Rightarrow> whatsAppSession \<Rightarrow> bool" where
  "savedQrValid now r =
     (truthy (qr r) \<and> (case qrExpiresAt r of None \<Rightarrow> False | Some e \<Rightarrow> e > now))"

definition qrData ::
  "jsstring \<Rightarrow> provider \<Rightarrow> string \<Rightarrow> time \<Rightarrow> jsstring option \<Rightarrow> string option \<Rightarrow>
     whatsAppSessionData" where
  "qrData n prov code expires tenant token =
     (sessionData n ''SCAN_QR_CODE'' prov)\<lparr>
        data_qr := Some code,
        data_qrExpiresAt := Some expires,
        data_tenantId := tenant,
        data_quepasaToken := token\<rparr>"

definition dataUri :: "string \<Rightarrow> string" where
  "dataUri base64 = ''data:image/png;base64,'' @ base64"

definition evolutionQr ::
  "time \<Rightarrow> qrGateway \<Rightarrow> jsstring \<Rightarrow> whatsAppSession \<Rightarrow> registry \<Rightarrow>
     reply \<times> registry \<times> remote_call list" where
  "evolutionQr later gw n s db =
     (case getQRCode gw n of
        Inl _ \<Rightarrow> (Reply 500 (QrProviderError EVOLUTION), db, [EvolutionGetQRCode n])
      | Inr code \<Rightarrow>
          (Reply 200 (FreshQr code (later + 300000) EVOLUTION),
           createOrUpdateSession later
             (qrData n EVOLUTION code (later + 300000) (tenantId s) None) db,
           [EvolutionGetQRCode n]))"

text \<open>
  Quepasa: without the stored configuration the branch throws before any call. A
  session without a token gets a generated one, saved at once; the scan then uses
  the token of the session.
\<close>

definition quepasaQr ::
  "time \<Rightarrow> qrGateway \<Rightarrow> string \<Rightarrow> jsstring \<Rightarrow> whatsAppSession \<Rightarrow> registry \<Rightarrow>
     reply \<times> registry \<times> remote_call list" where
  "quepasaQr later gw newToken n s db =
     (if \<not> truthy (quepasaUrl gw) \<or> \<not> truthy (quepasaLogin gw)
      then (Reply 500 (QrProviderError QUEPASA), db, [])
      else
        (let sessionToken = (if truthy (quepasaToken s) then or_else (quepasaToken s) [] else newToken);
             db1 = (if truthy (quepasaToken s) then db
                    else createOrUpdateSession later
                           ((sessionData n (status s) QUEPASA)\<lparr>
                              data_tenantId := tenantId s,
                              data_quepasaToken := Some sessionToken\<rparr>) db)
         in case quepasaScan gw sessionToken of
              Inl _ \<Rightarrow> (Reply 500 (QrProviderError QUEPASA), db1, [QuepasaScan sessionToken])
            | Inr base64 \<Rightarrow>
                (Reply 200 (FreshQr (dataUri base64) (later + 300000) QUEPASA),
                 createOrUpdateSession later
                   (qrData n QUEPASA (dataUri base64) (later + 300000) (tenantId s)
                      (Some sessionToken)) db1,
                 [QuepasaScan sessionToken])))"

text \<open>
  WAHA: the status stored in the registry wins when it is \<^verbatim>\<open>SCAN_QR_CODE\<close>, else
  the status of the gateway decides. Only \<^verbatim>\<open>SCAN_QR_CODE\<close> fetches a new image; a
  connected session is refused, and any other status falls back to a stored code
  that is still valid at the later reading of the clock.
\<close>

definition wahaQr ::
  "time \<Rightarrow> qrGateway \<Rightarrow> jsstring \<Rightarrow> whatsAppSession \<Rightarrow> registry \<Rightarrow>
     reply \<times> registry \<times> remote_call list" where
  "wahaQr later gw n s db =
     (case (case wahaSessionStatus gw n of
              Inr w \<Rightarrow> Inr (w_status w)
            | Inl e \<Rightarrow> if status s = ''SCAN_QR_CODE'' then Inr (Some ''SCAN_QR_CODE'') else Inl e) of
        Inl _ \<Rightarrow> (Reply 400 WahaUnreachable, db, [WahaGetSession n])
      | Inr remoteStatus \<Rightarrow>
          (let effectiveStatus =
                 (if status s = ''SCAN_QR_CODE'' then Some ''SCAN_QR_CODE'' else remoteStatus)
           in if effectiveStatus = Some ''SCAN_QR_CODE'' then
                (case wahaQrImage gw n of
                   Inl _ \<Rightarrow> (Reply 500 (QrProviderError WAHA), db, [WahaGetSession n, WahaQrImage n])
                 | Inr base64 \<Rightarrow>
                     (Reply 200 (FreshQr (dataUri base64) (later + 300000) WAHA),
                      createOrUpdateSession later
                        (qrData n WAHA (dataUri base64) (later + 300000) (tenantId s) None) db,
                      [WahaGetSession n, WahaQrImage n]))
              else if effectiveStatus = Some ''WORKING'' then
                (Reply 400 AlreadyConnected, db, [WahaGetSession n])
              else if savedQrValid later s then
                (Reply 200
                   (SavedQrUnavailable (or_else (qr s) [])
                      (case qrExpiresAt s of None \<Rightarrow> 0 | Some e \<Rightarrow> e) effectiveStatus),
                 db, [WahaGetSession n])
              else (Reply 400 QrNotAvailable, db, [WahaGetSession n])))"

text \<open>
  The handler. \<open>now\<close> is the clock at the first check of the stored code, \<open>later\<close>
  the clock of every later reading in the same run. A SUPERADMIN reads any session,
  every other caller only those of the own tenant.
\<close>

definition visibleTenant :: "request \<Rightarrow> jsstring option" where
  "visibleTenant req = (if user_role req = Some ''SUPERADMIN'' then None else req_tenantId req)"

definition getQr ::
  "time \<Rightarrow> time \<Rightarrow> qrGateway \<Rightarrow> string \<Rightarrow> request \<Rightarrow> jsstring \<Rightarrow> registry \<Rightarrow>
     reply \<times> registry \<times> remote_call list" where
  "getQr now later gw newToken req sessionName db =
     (case getSession sessionName (visibleTenant req) db of
        Inl _ \<Rightarrow> (Reply 404 SessionMissing, db, [])
      | Inr s \<Rightarrow>
          if savedQrValid now s then
            (Reply 200
               (SavedQr (or_else (qr s) []) (case qrExpiresAt s of None \<Rightarrow> 0 | Some e \<Rightarrow> e)
                  (status s)),
             db, [])
          else
            (case provider s of
               EVOLUTION \<Rightarrow> evolutionQr later gw sessionName s db
             | QUEPASA \<Rightarrow> quepasaQr later gw newToken sessionName s db
             | WAHA \<Rightarrow> wahaQr later gw sessionName s db))"

text \<open>A reply that hands out the code stored in the registry.\<close>

definition isStoredQr :: "reply \<Rightarrow> bool" where
  "isStoredQr r =
     (case r of
        Reply c (SavedQr code e st) \<Rightarrow> True
      | Reply c (SavedQrUnavailable code e st) \<Rightarrow> True
      | _ \<Rightarrow> False)"

text \<open>
  A run that issued the code \<open>code\<close> with expiry \<open>expires\<close>: the reply carries them as
  a new code of the provider, and the registry holds them for the session afterwards
  (an empty code is stored as null).
\<close>

definition freshIssued ::
  "reply \<times> registry \<times> remote_call list \<Rightarrow> jsstring \<Rightarrow> string \<Rightarrow> time \<Rightarrow> provider \<Rightarrow> bool" where
  "freshIssued res n code expires prov =
     (fst res = Reply 200 (FreshQr code expires prov) \<and>
      map_option qr (findUnique n (fst (snd res))) = Some (or_null (Some code)) \<and>
      map_option qrExpiresAt (findUnique n (fst (snd res))) = Some (Some expires))"

text \<open>A reply that refuses the request: status 400 or 500, with a message and no code.\<close>

definition isErrorReply :: "reply \<Rightarrow> bool" where
  "isErrorReply r =
     (case r of
        Reply c p \<Rightarrow>
          (c = 400 \<or> c = 500) \<and>
          (case p of
             QrProviderError prov \<Rightarrow> True
           | WahaUnreachable \<Rightarrow> True
           | AlreadyConnected \<Rightarrow> True
           | QrNotAvailable \<Rightarrow> True
           | _ \<Rightarrow> False))"


section \<open>Notions for the statements about the batch\<close>

text \<open>
  A computation is quiet outside the name \<open>n\<close> when it leaves every row of another
  name as it was and keeps the names of the table unique.
\<close>

definition quiet :: "jsstring \<Rightarrow> 'a comp \<Rightarrow> bool" where
  "quiet n c =
     (\<forall>db. (\<forall>m. m \<noteq> n \<longrightarrow> findUnique m (snd (c db)) = findUnique m db) \<and>
           (uniqueNames db \<longrightarrow> uniqueNames (snd (c db))))"




section \<open>Example data\<close>

text \<open>A connected Quepasa session of one tenant, used to run the model.\<close>

definition exampleRow :: whatsAppSession where
  "exampleRow = emptySession\<lparr>name := js ''sales_c52982e8'', displayName := Some (js ''sales''),
     status := ''WORKING'', provider := QUEPASA, tenantId := Some (js ''c52982e8-aaaa''),
     quepasaToken := Some ''tok'', interactiveCampaignEnabled := True,
     webhookSecret := Some ''secret'', criadoEm := 1000, atualizadoEm := 1000\<rparr>"

text \<open>
  The tenant of the example row with a quota of one connection, which the row uses
  up; a request of an ordinary user of that tenant; gateways that answer every call.
\<close>

definition exampleQuota :: tenantQuota where
  "exampleQuota = \<lparr>quota_tenantId = js ''c52982e8-aaaa'', maxUsers = 5, maxContacts = 100,
     maxCampaigns = 10, maxConnections = 1, count_users = 1, count_contacts = 0,
     count_campaigns = 0\<rparr>"

definition exampleDb :: database where
  "exampleDb = \<lparr>sessions = [exampleRow], tenantQuotas = [exampleQuota]\<rparr>"

definition roomyDb :: database where
  "roomyDb = \<lparr>sessions = [exampleRow], tenantQuotas = [exampleQuota\<lparr>maxConnections := 3\<rparr>]\<rparr>"

definition exampleRequest :: "jsstring \<Rightarrow> request" where
  "exampleRequest label = \<lparr>user_role = Some ''ADMIN'', req_tenantId = Some (js ''c52982e8-aaaa''),
     body_name = Some label, body_provider = Some ''QUEPASA'',
     body_interactiveCampaignEnabled = None, body_tenantId = None\<rparr>"

definition exampleCreationGateway :: creationGateway where
  "exampleCreationGateway = \<lparr>wahaPost = (\<lambda>n. Inr ()), wahaGet = (\<lambda>n. Inl ''WAHA API Error: 404 Not Found''),
     createInstance = (\<lambda>n u. Inr None)\<rparr>"

text \<open>
  A session of the example tenant waiting for its pairing, whose stored code expires
  at time 1500, and gateways that hand out a new code on every request.
\<close>

definition pairingRow :: "provider \<Rightarrow> string \<Rightarrow> whatsAppSession" where
  "pairingRow prov st = exampleRow\<lparr>provider := prov, status := st,
     qr := Some ''data:old'', qrExpiresAt := Some 1500\<rparr>"

definition exampleQrGateway :: qrGateway where
  "exampleQrGateway = \<lparr>quepasaUrl = Some ''http://quepasa'', quepasaLogin = Some ''admin'',
     getQRCode = (\<lambda>n. Inr ''data:new''), quepasaScan = (\<lambda>t. Inr ''bmV3''),
     wahaSessionStatus = (\<lambda>n. Inr \<lparr>w_name = n, w_status = Some ''STOPPED'', w_config = None,
        w_me = None, w_assignedWorker = None\<rparr>),
     wahaQrImage = (\<lambda>n. Inr ''bmV3'')\<rparr>"





text \<open>A WAHA gateway at which every session waits for its pairing.\<close>

definition pairingWahaGateway :: qrGateway where
  "pairingWahaGateway = exampleQrGateway\<lparr>
     wahaSessionStatus := (\<lambda>n. Inr \<lparr>w_name = n, w_status = Some ''SCAN_QR_CODE'',
        w_config = None, w_me = None, w_assignedWorker = None\<rparr>)\<rparr>"







section \<open>Properties of the registry write\<close>

lemma name_updateData: "name (updateData now d r) = data_name d"
  by (simp add: updateData_def baseData_def Let_def split: option.splits)

lemma name_createData: "name (createData now d) = data_name d"
  by (simp add: createData_def baseData_def)

lemma find_snoc:
  "find P (xs @ [y]) = (case find P xs of None \<Rightarrow> (if P y then Some y else None) | Some x \<Rightarrow> Some x)"
  by (induction xs) auto

lemma find_map_update:
  "find (\<lambda>r. name r = n) (map (\<lambda>r. if name r = n then f r else r) db) =
     map_option f (find (\<lambda>r. name r = n) db)" if "\<And>r. name (f r) = n"
  using that by (induction db) auto


lemma findUnique_createOrUpdateSession_same:
  "findUnique (data_name d) (createOrUpdateSession now d db) =
     Some (case findUnique (data_name d) db of
             None \<Rightarrow> createData now d
           | Some old \<Rightarrow> updateData now d old)"
  by (auto simp: createOrUpdateSession_def findUnique_def find_snoc name_createData
      find_map_update name_updateData split: option.splits)


lemma updateData_webhook_fields:
  "data_interactiveCampaignEnabled d = None \<Longrightarrow> data_webhookSecret d = None \<Longrightarrow>
   interactiveCampaignEnabled (updateData now d old) = interactiveCampaignEnabled old \<and>
   webhookSecret (updateData now d old) = webhookSecret old"
  by (simp add: updateData_def baseData_def)

lemma createData_webhook_fields:
  "data_interactiveCampaignEnabled d = None \<Longrightarrow> data_webhookSecret d = None \<Longrightarrow>
   interactiveCampaignEnabled (createData now d) = False \<and>
   webhookSecret (createData now d) = None"
  by (simp add: createData_def or_null_def truthy_def)

text \<open>
  C10. An update of an existing session through \<^verbatim>\<open>createOrUpdateSession\<close> that
  omits \<^verbatim>\<open>interactiveCampaignEnabled\<close> and \<^verbatim>\<open>webhookSecret\<close> leaves both
  stored fields as they were; on first creation they default to false and null.
\<close>

theorem webhook_fields_merge_on_update_default_on_create:
  assumes "data_interactiveCampaignEnabled d = None" and "data_webhookSecret d = None"
  shows "(\<forall>old. findUnique (data_name d) db = Some old \<longrightarrow>
            (\<exists>new. findUnique (data_name d) (createOrUpdateSession now d db) = Some new \<and>
               interactiveCampaignEnabled new = interactiveCampaignEnabled old \<and>
               webhookSecret new = webhookSecret old))
       \<and> (findUnique (data_name d) db = None \<longrightarrow>
            (\<exists>new. findUnique (data_name d) (createOrUpdateSession now d db) = Some new \<and>
               interactiveCampaignEnabled new = False \<and> webhookSecret new = None))"
  using assms
  by (simp add: findUnique_createOrUpdateSession_same
      updateData_webhook_fields createData_webhook_fields)

text \<open>
  The theorem at the example row (stored flag true, stored secret kept) and at the
  empty table (defaults).
\<close>

theorem webhook_fields_witness:
  "(\<exists>new. findUnique (js ''sales_c52982e8'')
       (createOrUpdateSession 2000 (sessionData (js ''sales_c52982e8'') ''STOPPED'' QUEPASA) [exampleRow])
         = Some new \<and>
      interactiveCampaignEnabled new = True \<and> webhookSecret new = Some ''secret'')
   \<and> (\<exists>new. findUnique (js ''sales_c52982e8'')
       (createOrUpdateSession 2000 (sessionData (js ''sales_c52982e8'') ''STOPPED'' QUEPASA) [])
         = Some new \<and>
      interactiveCampaignEnabled new = False \<and> webhookSecret new = None)"
  using webhook_fields_merge_on_update_default_on_create
      [of "sessionData (js ''sales_c52982e8'') ''STOPPED'' QUEPASA" "[exampleRow]" 2000]
    webhook_fields_merge_on_update_default_on_create
      [of "sessionData (js ''sales_c52982e8'') ''STOPPED'' QUEPASA" "[]" 2000]
  by (simp add: sessionData_def findUnique_def exampleRow_def emptySession_def js_def)

text \<open>
  C1. A registry write that does not supply a token should leave the stored token as
  it is. The code does not: \<^verbatim>\<open>baseData\<close> carries
  \<^verbatim>\<open>quepasaToken: data.quepasaToken || null\<close> into the update, so a call that omits
  the token stores null over it. Evaluated at the example row: the token is
  \<open>''tok''\<close> before the write and null after it.
\<close>

theorem omitted_token_is_nulled:
  "map_option quepasaToken (findUnique (js ''sales_c52982e8'') [exampleRow]) = Some (Some ''tok'')
   \<and> map_option quepasaToken (findUnique (js ''sales_c52982e8'')
       (createOrUpdateSession 2000 (sessionData (js ''sales_c52982e8'') ''STOPPED'' QUEPASA) [exampleRow]))
     = Some None"
  by (simp add: createOrUpdateSession_def findUnique_def sessionData_def exampleRow_def
      emptySession_def updateData_def baseData_def or_null_def truthy_def or_else_def js_def)

section \<open>Properties of the status vocabularies\<close>

lemma quepasa_unknown_failed:
  "\<not> str_includes (toLowerCase st) ''ready'' \<Longrightarrow>
   \<not> str_includes (toLowerCase st) ''starting'' \<Longrightarrow>
   \<not> str_includes (toLowerCase st) ''qrcode'' \<Longrightarrow>
   \<not> str_includes (toLowerCase st) ''disconnected'' \<Longrightarrow>
   \<not> str_includes (toLowerCase st) ''stopped'' \<Longrightarrow>
   quepasaMappedStatus success st = ''FAILED''"
  by (simp add: quepasaMappedStatus_def)

lemma quepasa_stopped_only_on_keyword:
  "quepasaMappedStatus success st = ''STOPPED'' \<Longrightarrow>
   str_includes (toLowerCase st) ''disconnected'' \<or> str_includes (toLowerCase st) ''stopped''"
  by (simp add: quepasaMappedStatus_def Let_def split: if_splits)

lemma lowerChar_not_upper: "lowerChar c \<notin> set ''ABCDEFGHIJKLMNOPQRSTUVWXYZ''"
  by (simp add: lowerChar_def)

lemma toLowerCase_no_upper:
  "u \<in> set ''ABCDEFGHIJKLMNOPQRSTUVWXYZ'' \<Longrightarrow> u \<notin> set (toLowerCase s)"
  using lowerChar_not_upper by (auto simp: toLowerCase_def)

lemma toLowerCase_not_mixed_case_key:
  "toLowerCase s \<notin> set [''hasOwnProperty'', ''isPrototypeOf'', ''propertyIsEnumerable'',
      ''toString'', ''toLocaleString'', ''valueOf'', ''__defineGetter__'', ''__defineSetter__'',
      ''__lookupGetter__'', ''__lookupSetter__'']"
proof -
  have O: "CHR ''O'' \<notin> set (toLowerCase s)" and P: "CHR ''P'' \<notin> set (toLowerCase s)"
    and S: "CHR ''S'' \<notin> set (toLowerCase s)" and G: "CHR ''G'' \<notin> set (toLowerCase s)"
    and I: "CHR ''I'' \<notin> set (toLowerCase s)"
    by (simp_all add: toLowerCase_no_upper)
  show ?thesis
    using O P S G I by auto
qed

lemma evolution_unknown_stopped:
  assumes "toLowerCase raw \<notin> {''open'', ''connecting'', ''close'', ''closed'',
             ''constructor'', ''__proto__''}"
  shows "evolutionMappedStatus raw = Str ''STOPPED''"
proof -
  have "stateMap (toLowerCase raw) = None"
    using assms toLowerCase_not_mixed_case_key [of raw] by (simp add: stateMap_def)
  then show ?thesis by (simp add: evolutionMappedStatus_def)
qed

lemma evolution_inherited_not_a_string:
  "toLowerCase raw \<in> {''constructor'', ''__proto__''} \<Longrightarrow> evolutionMappedStatus raw = Obj"
  by (auto simp: evolutionMappedStatus_def stateMap_def)

lemma waha_status_passthrough:
  "w_status w = Some s \<Longrightarrow> s \<noteq> [] \<Longrightarrow> wahaStatus w = s"
  by (simp add: wahaStatus_def or_else_def)

text \<open>
  C2, as the code has it. Only the Quepasa mapping sends a word outside its vocabulary
  to FAILED, and it answers STOPPED only on the keywords \<^verbatim>\<open>disconnected\<close> and
  \<^verbatim>\<open>stopped\<close>. The Evolution state map sends a state to STOPPED, its stated default,
  when the state in lower case is none of \<^verbatim>\<open>open\<close>, \<^verbatim>\<open>connecting\<close>, \<^verbatim>\<open>close\<close>,
  \<^verbatim>\<open>closed\<close> and none of the two inherited property names \<^verbatim>\<open>constructor\<close> and
  \<^verbatim>\<open>__proto__\<close>; for these two the lookup gives a value that is not a string, so
  the status is none of the four words and the session is not written. WAHA statuses
  are not mapped: a non-empty status is stored as received.
\<close>

theorem unknown_status_failed_for_quepasa_stopped_for_evolution:
  "(\<not> str_includes (toLowerCase st) ''ready'' \<and>
    \<not> str_includes (toLowerCase st) ''starting'' \<and>
    \<not> str_includes (toLowerCase st) ''qrcode'' \<and>
    \<not> str_includes (toLowerCase st) ''disconnected'' \<and>
    \<not> str_includes (toLowerCase st) ''stopped'' \<longrightarrow>
      quepasaMappedStatus success st = ''FAILED'')
   \<and> (quepasaMappedStatus success st = ''STOPPED'' \<longrightarrow>
      str_includes (toLowerCase st) ''disconnected'' \<or> str_includes (toLowerCase st) ''stopped'')
   \<and> (toLowerCase raw \<notin> {''open'', ''connecting'', ''close'', ''closed'',
          ''constructor'', ''__proto__''} \<longrightarrow>
      evolutionMappedStatus raw = Str ''STOPPED'')
   \<and> (toLowerCase raw \<in> {''constructor'', ''__proto__''} \<longrightarrow>
      evolutionMappedStatus raw = Obj \<and>
      writeEvolutionStatus now s (evolutionMappedStatus raw) info db = (Inr (), db))
   \<and> (w_status w = Some ws \<and> ws \<noteq> [] \<longrightarrow> wahaStatus w = ws)"
proof -
  have "writeEvolutionStatus now s Obj info db = (Inr (), db)"
    by (simp add: writeEvolutionStatus_def returnOk_def)
  then show ?thesis
    using quepasa_unknown_failed [of st success] quepasa_stopped_only_on_keyword [of success st]
      evolution_unknown_stopped [of raw] evolution_inherited_not_a_string [of raw]
      waha_status_passthrough [of w ws]
    by auto
qed

text \<open>
  The theorem at an unknown Quepasa status, at a Quepasa status with a keyword, at an
  unknown Evolution state, at an inherited property name and at an unknown WAHA
  status.
\<close>

theorem unknown_status_witness:
  "quepasaMappedStatus True ''Banana'' = ''FAILED''
   \<and> quepasaMappedStatus False ''Server status is Disconnected'' = ''STOPPED''
   \<and> str_includes (toLowerCase ''Server status is Disconnected'') ''disconnected''
   \<and> evolutionMappedStatus ''Refused'' = Str ''STOPPED''
   \<and> evolutionMappedStatus ''Constructor'' = Obj
   \<and> writeEvolutionStatus 2000 exampleRow (evolutionMappedStatus ''Constructor'') None
        [exampleRow] = (Inr (), [exampleRow])
   \<and> wahaStatus \<lparr>w_name = js ''s'', w_status = Some ''STARTING'', w_config = None,
         w_me = None, w_assignedWorker = None\<rparr> = ''STARTING''"
  using unknown_status_failed_for_quepasa_stopped_for_evolution
      [where st = "''Banana''" and success = True and raw = "''Refused''"
         and w = "\<lparr>w_name = js ''s'', w_status = Some ''STARTING'', w_config = None,
           w_me = None, w_assignedWorker = None\<rparr>" and ws = "''STARTING''"
         and now = 2000 and s = exampleRow and info = None and db = "[exampleRow]"]
    unknown_status_failed_for_quepasa_stopped_for_evolution
      [where st = "''Server status is Disconnected''" and success = False
         and raw = "''Constructor''"
         and w = "\<lparr>w_name = js ''s'', w_status = Some ''STARTING'', w_config = None,
           w_me = None, w_assignedWorker = None\<rparr>" and ws = "''STARTING''"
         and now = 2000 and s = exampleRow and info = None and db = "[exampleRow]"]
  by (simp add: toLowerCase_def lowerChar_def quepasaMappedStatus_def
      writeEvolutionStatus_def returnOk_def)

text \<open>
  C2 as stated fails on the Evolution state map: the state \<^verbatim>\<open>Refused\<close> is outside
  its vocabulary and is mapped to STOPPED, not to FAILED.
\<close>

theorem evolution_unknown_state_maps_to_stopped:
  "toLowerCase ''Refused'' \<notin> {''open'', ''connecting'', ''close'', ''closed''}
   \<and> evolutionMappedStatus ''Refused'' = Str ''STOPPED''
   \<and> evolutionMappedStatus ''Refused'' \<noteq> Str ''FAILED''"
  by (simp add: evolutionMappedStatus_def stateMap_def toLowerCase_def lowerChar_def)

section \<open>Properties of the webhook verifier\<close>

lemma all_nibbles:
  "list_all (\<lambda>n. hexVal (hexDigit n) = Some n \<and> hexDigit n \<noteq> CHR ''s'') [0..<16]"
  by code_simp

lemma hexVal_hexDigit: "n < 16 \<Longrightarrow> hexVal (hexDigit n) = Some n"
  using all_nibbles by (simp add: list_all_iff)

lemma hexDigit_not_s: "n < 16 \<Longrightarrow> hexDigit n \<noteq> CHR ''s''"
  using all_nibbles by (simp add: list_all_iff)

lemma nibbles_of_byte: "unat (b :: byte) div 16 < 16 \<and> unat b mod 16 < 16"
proof -
  have "unat b < 256" using unsigned_less [of b] by simp
  then show ?thesis by simp
qed

lemma byte_from_nibbles: "(of_nat (16 * (unat b div 16) + unat b mod 16) :: byte) = b"
  by simp

lemma bufferFromHex_hexEncode_append:
  "bufferFromHex (hexEncode bs @ rest) = bs @ bufferFromHex rest"
proof (induction bs)
  case Nil
  show ?case by (simp add: hexEncode_def)
next
  case (Cons b bs)
  have hi: "unat b div 16 < 16" and lo: "unat b mod 16 < 16"
    using nibbles_of_byte [of b] by simp_all
  have "hexEncode (b # bs) @ rest =
      hexDigit (unat b div 16) # hexDigit (unat b mod 16) # (hexEncode bs @ rest)"
    by (simp add: hexEncode_def)
  then show ?case
    using Cons.IH hexVal_hexDigit [OF hi] hexVal_hexDigit [OF lo] byte_from_nibbles [of b]
    by simp
qed

lemma bufferFromHex_hexEncode: "bufferFromHex (hexEncode bs) = bs"
  using bufferFromHex_hexEncode_append [of bs "[]"] by simp

lemma validateHmacSignature_eq:
  "validateHmacSignature hmac (Some sg) body secret =
     (bufferFromHex (removeFirst ''sha256='' sg) = hmac secret body)"
  by (auto simp: validateHmacSignature_def timingSafeEqual_def bufferFromHex_hexEncode Let_def)

lemma hexEncode_no_s: "CHR ''s'' \<notin> set (hexEncode bs)"
proof (induction bs)
  case Nil
  show ?case by (simp add: hexEncode_def)
next
  case (Cons b bs)
  have hi: "unat b div 16 < 16" and lo: "unat b mod 16 < 16"
    using nibbles_of_byte [of b] by simp_all
  have "hexEncode (b # bs) =
      hexDigit (unat b div 16) # hexDigit (unat b mod 16) # hexEncode bs"
    by (simp add: hexEncode_def)
  then show ?case
    using Cons.IH hexDigit_not_s [OF hi] hexDigit_not_s [OF lo] by auto
qed

lemma removeFirst_absent: "CHR ''s'' \<notin> set s \<Longrightarrow> removeFirst ''sha256='' s = s"
  by (induction s) auto

lemma removeFirst_prefix: "removeFirst ''sha256='' (''sha256='' @ s) = s"
  by simp

lemma no_s_no_prefix: "CHR ''s'' \<notin> set s \<Longrightarrow> \<not> startsWith s ''sha256=''"
  by (cases s) auto

lemma digest_signature_accepted:
  "validateHmacSignature hmac (Some (hexEncode (hmac secret body))) body secret"
  by (simp add: validateHmacSignature_eq removeFirst_absent hexEncode_no_s
      bufferFromHex_hexEncode)

lemma prefixed_digest_signature_accepted:
  "validateHmacSignature hmac (Some (''sha256='' @ hexEncode (hmac secret body))) body secret"
  unfolding validateHmacSignature_eq removeFirst_prefix bufferFromHex_hexEncode ..

text \<open>
  C9, as the code has it. The verifier accepts exactly when the bytes that the
  hexadecimal decoding reads from the signature, the first \<^verbatim>\<open>sha256=\<close> removed, are
  the digest. So the lower-case digest is accepted with and without the prefix, every
  signature that decodes to other bytes or to another length is rejected, and a
  missing signature is answered false. Nothing is said about a changed body: that
  rests on the digest function.
\<close>

theorem signature_accepted_iff_decoded_bytes_are_digest:
  "validateHmacSignature hmac (Some sg) body secret =
     (bufferFromHex (removeFirst ''sha256='' sg) = hmac secret body)
   \<and> validateHmacSignature hmac (Some (hexEncode (hmac secret body))) body secret
   \<and> validateHmacSignature hmac (Some (''sha256='' @ hexEncode (hmac secret body))) body secret
   \<and> \<not> validateHmacSignature hmac None body secret"
  using validateHmacSignature_eq [of hmac sg body secret]
    digest_signature_accepted [of hmac secret body]
    prefixed_digest_signature_accepted [of hmac secret body]
  by (simp add: validateHmacSignature_def)

text \<open>
  C9 as stated fails: acceptance is not equality with the hexadecimal digest. For
  every digest function, body and secret, the digest followed by \<^verbatim>\<open>zz\<close> is
  accepted, because decoding stops at the first pair that is not hexadecimal.
\<close>

theorem signature_with_trailing_garbage_accepted:
  "\<forall>hmac body secret.
     validateHmacSignature hmac (Some (hexEncode (hmac secret body) @ ''zz'')) body secret
     \<and> \<not> specAccepts hmac (hexEncode (hmac secret body) @ ''zz'') body secret"
proof (intro allI conjI)
  fix hmac :: "string \<Rightarrow> string \<Rightarrow> byte list" and body secret :: string
  let ?hex = "hexEncode (hmac secret body)"
  have no_s: "CHR ''s'' \<notin> set (?hex @ ''zz'')"
    using hexEncode_no_s [of "hmac secret body"] by simp
  have "bufferFromHex (?hex @ ''zz'') = hmac secret body"
    by (simp add: bufferFromHex_hexEncode_append hexVal_def)
  then show "validateHmacSignature hmac (Some (?hex @ ''zz'')) body secret"
    using removeFirst_absent [OF no_s] by (simp add: validateHmacSignature_eq)
  show "\<not> specAccepts hmac (?hex @ ''zz'') body secret"
    using no_s_no_prefix [OF no_s] by (simp add: specAccepts_def stripSha256Prefix_def)
qed

section \<open>Properties of the quota gate and of session creation\<close>

lemma gate_refusal_is_final:
  "checkConnectionQuota req db = Respond r \<Longrightarrow>
   postSessions now gw newSecret newToken req db = (r, db, [])"
  by (simp add: postSessions_def)

lemma quota_reached:
  assumes "user_role req \<noteq> Some ''SUPERADMIN''"
    and "req_tenantId req = Some t" and "t \<noteq> []"
    and "find (\<lambda>q. quota_tenantId q = t) (tenantQuotas db) = Some q"
    and "maxConnections q \<le> count_whatsappSessions t (sessions db)"
  shows "checkConnectionQuota req db =
     Respond (Reply 403 (QuotaReached Connections (count_whatsappSessions t (sessions db))
       (maxConnections q)))"
  using assms by (simp add: checkConnectionQuota_def quotaMiddleware_def)

text \<open>
  C4. A creation request of a caller who is not SUPERADMIN, whose tenant has as many
  connections as its quota allows or more, is answered 403 with the quota error by the
  gate; the handler never runs, so the database is as before and no call leaves the
  system.
\<close>

theorem quota_refusal_creates_nothing:
  assumes "user_role req \<noteq> Some ''SUPERADMIN''"
    and "req_tenantId req = Some t" and "t \<noteq> []"
    and "find (\<lambda>q. quota_tenantId q = t) (tenantQuotas db) = Some q"
    and "maxConnections q \<le> count_whatsappSessions t (sessions db)"
  shows "postSessions now gw newSecret newToken req db =
     (Reply 403 (QuotaReached Connections (count_whatsappSessions t (sessions db))
        (maxConnections q)), db, [])"
  using gate_refusal_is_final [OF quota_reached [OF assms]] .

text \<open>The theorem at the example tenant, whose one allowed connection is in use.\<close>

theorem quota_refusal_witness:
  "postSessions 2000 exampleCreationGateway ''secret2'' ''tok2'' (exampleRequest (js ''support''))
     exampleDb = (Reply 403 (QuotaReached Connections 1 1), exampleDb, [])"
  using quota_refusal_creates_nothing
      [of "exampleRequest (js ''support'')" "js ''c52982e8-aaaa''" exampleDb exampleQuota
        2000 exampleCreationGateway "''secret2''" "''tok2''"]
  by (simp add: exampleRequest_def exampleDb_def exampleQuota_def exampleRow_def
      emptySession_def count_whatsappSessions_def js_def)

lemma handler_conflict:
  assumes "body_name req = Some label" and "label \<noteq> []"
    and "parseProvider (case body_provider req of None \<Rightarrow> ''WAHA'' | Some p \<Rightarrow> p) = Some prov"
    and "effectiveTenant req = Some t" and "t \<noteq> []"
    and "findUnique (realNameOf label t) reg = Some existing"
  shows "createSessionHandler now gw newSecret newToken req reg = (Reply 409 NameConflict, reg, [])"
  using assms by (simp add: createSessionHandler_def truthy_def or_else_def)

lemma gate_cases: "checkConnectionQuota req db = Next \<or> (\<exists>c p. checkConnectionQuota req db = Respond (Reply 403 p))"
  by (auto simp: checkConnectionQuota_def quotaMiddleware_def Let_def
      split: option.splits resource.splits prod.splits)

text \<open>
  C5, as the code has it. A creation request with a name, a known provider and a
  tenant, whose derived session name is in the registry already, is answered 409 when
  the quota gate lets it through; when the gate refuses first the answer is its 403.
  In both cases the database is unchanged and no call leaves the system.
\<close>

theorem duplicate_name_refused_before_any_call:
  assumes "body_name req = Some label" and "label \<noteq> []"
    and "parseProvider (case body_provider req of None \<Rightarrow> ''WAHA'' | Some p \<Rightarrow> p) = Some prov"
    and "effectiveTenant req = Some t" and "t \<noteq> []"
    and "findUnique (realNameOf label t) (sessions db) = Some existing"
  shows "(checkConnectionQuota req db = Next \<longrightarrow>
            postSessions now gw newSecret newToken req db = (Reply 409 NameConflict, db, []))
     \<and> (\<exists>code p. postSessions now gw newSecret newToken req db = (Reply code p, db, [])
            \<and> (code = 409 \<or> code = 403))"
proof (cases "checkConnectionQuota req db")
  case Next
  then show ?thesis
    using handler_conflict [OF assms, of now gw newSecret newToken]
    by (simp add: postSessions_def)
next
  case (Respond r)
  then obtain p where "r = Reply 403 p"
    using gate_cases [of req db] by auto
  then show ?thesis
    using Respond by (simp add: postSessions_def)
qed

text \<open>
  The theorem at a second request for the label of the example row, with a no-break
  space (U+00A0) before it and a line separator (U+2028) after it, which \<^verbatim>\<open>trim\<close>
  removes; the quota allows three connections.
\<close>

theorem duplicate_name_witness:
  "postSessions 2000 exampleCreationGateway ''secret2'' ''tok2''
     (exampleRequest ([160] @ js ''sales'' @ [8232])) roomyDb
   = (Reply 409 NameConflict, roomyDb, [])"
  using duplicate_name_refused_before_any_call
      [of "exampleRequest ([160] @ js ''sales'' @ [8232])" "[160] @ js ''sales'' @ [8232]"
        QUEPASA "js ''c52982e8-aaaa''" roomyDb
        exampleRow 2000 exampleCreationGateway "''secret2''" "''tok2''"]
  by (simp add: exampleRequest_def roomyDb_def exampleQuota_def exampleRow_def
      emptySession_def count_whatsappSessions_def checkConnectionQuota_def
      quotaMiddleware_def parseProvider_def effectiveTenant_def realNameOf_def
      trim_def isSpace_def findUnique_def js_def)

text \<open>
  C5 as stated fails where the quota is used up: the derived name of the request is in
  the registry, and the answer is the 403 of the gate, not 409.
\<close>

theorem duplicate_name_at_quota_gets_403:
  "findUnique (realNameOf (js ''sales'') (js ''c52982e8-aaaa'')) (sessions exampleDb)
     = Some exampleRow
   \<and> postSessions 2000 exampleCreationGateway ''secret2'' ''tok2''
       (exampleRequest (js ''sales'')) exampleDb
     = (Reply 403 (QuotaReached Connections 1 1), exampleDb, [])"
  by (simp add: exampleRequest_def exampleDb_def exampleQuota_def exampleRow_def
      emptySession_def count_whatsappSessions_def checkConnectionQuota_def
      quotaMiddleware_def postSessions_def realNameOf_def
      trim_def isSpace_def findUnique_def js_def)

section \<open>Properties of the pairing code route\<close>

lemma savedQrValid_iff:
  "qr s = Some code \<Longrightarrow> qrExpiresAt s = Some e \<Longrightarrow> savedQrValid t s = (code \<noteq> [] \<and> t < e)"
  by (simp add: savedQrValid_def truthy_def)

text \<open>
  C6, as the code has it. For a session the caller may read, with a stored code that
  is not empty and whose expiry lies strictly after the time of the request, the
  route answers with exactly the stored code and its stored expiry, writes nothing
  and calls no gateway. This holds in every status, \<^verbatim>\<open>SCAN_QR_CODE\<close> included.
\<close>

theorem unexpired_code_returned_unchanged:
  assumes "getSession n (visibleTenant req) db = Inr s"
    and "qr s = Some code" and "code \<noteq> []"
    and "qrExpiresAt s = Some e" and "now < e"
  shows "getQr now later gw newToken req n db = (Reply 200 (SavedQr code e (status s)), db, [])"
  using assms by (simp add: getQr_def savedQrValid_iff or_else_def)









lemmas example_defs = exampleRequest_def exampleRow_def emptySession_def pairingRow_def
  exampleQrGateway_def pairingWahaGateway_def js_def

lemmas qr_route_defs = getQr_def getSession_def visibleTenant_def tenantFilter_def
  savedQrValid_def truthy_def or_else_def or_null_def evolutionQr_def quepasaQr_def
  wahaQr_def freshIssued_def isStoredQr_def isErrorReply_def dataUri_def qrData_def
  sessionData_def createOrUpdateSession_def findUnique_def updateData_def baseData_def

text \<open>
  The theorem at a session waiting for its pairing, read 500 ms before the stored
  code expires.
\<close>

theorem unexpired_code_witness:
  "getQr 1000 1200 exampleQrGateway ''tok2'' (exampleRequest (js ''sales''))
     (js ''sales_c52982e8'') [pairingRow EVOLUTION ''SCAN_QR_CODE'']
   = (Reply 200 (SavedQr ''data:old'' 1500 ''SCAN_QR_CODE''),
      [pairingRow EVOLUTION ''SCAN_QR_CODE''], [])"
  using unexpired_code_returned_unchanged
      [where n = "js ''sales_c52982e8''" and req = "exampleRequest (js ''sales'')"
         and db = "[pairingRow EVOLUTION ''SCAN_QR_CODE'']"
         and s = "pairingRow EVOLUTION ''SCAN_QR_CODE''" and code = "''data:old''"
         and e = 1500 and now = 1000 and later = 1200 and gw = exampleQrGateway
         and newToken = "''tok2''"]
  by (simp add: example_defs getSession_def visibleTenant_def tenantFilter_def truthy_def)

text \<open>
  C6 as stated counts a code as unexpired while \<open>now \<le> expiresAt\<close>. The code
  compares \<^verbatim>\<open>qrExpiresAt > new Date()\<close>: read at the very time of its expiry, the
  stored code is not returned; the gateway is called and a new code is handed out.
\<close>

theorem code_at_its_expiry_time_is_reissued:
  "qrExpiresAt (pairingRow EVOLUTION ''SCAN_QR_CODE'') = Some 1500
   \<and> fst (getQr 1500 1500 exampleQrGateway ''tok2'' (exampleRequest (js ''sales''))
        (js ''sales_c52982e8'') [pairingRow EVOLUTION ''SCAN_QR_CODE''])
     = Reply 200 (FreshQr ''data:new'' 301500 EVOLUTION)
   \<and> snd (snd (getQr 1500 1500 exampleQrGateway ''tok2'' (exampleRequest (js ''sales''))
        (js ''sales_c52982e8'') [pairingRow EVOLUTION ''SCAN_QR_CODE'']))
     = [EvolutionGetQRCode (js ''sales_c52982e8'')]"
  by (simp add: example_defs qr_route_defs)



section \<open>Properties of the batch synchronisation\<close>

subsection \<open>Writes keep the names unique\<close>






subsection \<open>Quiet computations\<close>








lemma quiet_fun: "(\<And>db. quiet n (c db)) \<Longrightarrow> quiet n (\<lambda>db. c db db)"
  by (simp add: quiet_def)





subsection \<open>A loop of quiet turns\<close>




subsection \<open>The sessions that a leg reads\<close>





subsection \<open>A leg of quiet turns\<close>




subsection \<open>What a write stores\<close>






subsection \<open>The turn of a WAHA session\<close>







subsection \<open>The turn of a Quepasa session\<close>









subsection \<open>The turn of an Evolution session\<close>










subsection \<open>The three legs\<close>













end
